theory Spec2Isabelle
  imports Main "HOL-Library.Word"
begin

section \<open>Go values shared by the providers and the detectors\<close>

text \<open>
  A Go \<open>string\<close> and a \<open>[]byte\<close> are byte sequences; both are \<open>string\<close> (a list of
  8-bit characters) here.

  A Go \<open>error\<close> is built in the sources in two ways only: by a library
  (an opaque error with a message) or by \<open>fmt.Errorf\<close>, either around a plain
  message or wrapping another error with \<open>%w\<close>. \<open>errors_New s\<close> is an error whose
  message is \<open>s\<close>; \<open>fmt_Errorf_w p e\<close> is \<open>fmt.Errorf(p + "%w", e)\<close>.
\<close>

datatype error = errors_New string | fmt_Errorf_w string error

fun Error :: "error \<Rightarrow> string" where
  "Error (errors_New s) = s"
| "Error (fmt_Errorf_w p e) = p @ Error e"

text \<open>The two run-time panics the sources can raise.\<close>

datatype panic = NilPointerDereference | InterfaceConversion

subsection \<open>net/http as seen by the providers\<close>

record http_Request =
  Method :: string
  URL :: string
  Header :: "(string \<times> string) list"

text \<open>
  \<open>Body\<close> is what \<open>ioutil.ReadAll(resp.Body)\<close> yields: a read error or all the bytes.
\<close>

record http_Response =
  Status :: string
  StatusCode :: int
  Body :: "error + string"

text \<open>
  The world outside the program. \<open>url_Parse\<close> is the only way
  \<open>http.NewRequestWithContext\<close> can fail for the method GET and a non-nil context
  (\<open>None\<close>: the URL parses). \<open>server\<close> is the result of \<open>client.Do\<close>: a transport
  error (which includes a cancelled context) or a response; it may depend on every
  request sent before, so the state threaded through a call is the list of requests sent
  so far. \<open>json_Unmarshal\<close> is \<open>json.Unmarshal(body, &metadata)\<close> for a nil
  \<open>metadata\<close> pointer of the provider's response type: an error, or the pointer it
  leaves in \<open>metadata\<close>, which is nil (\<open>None\<close>) when the body is the JSON literal
  \<open>null\<close>. \<open>pem_Decode\<close> gives the bytes of the first PEM block, if there is one;
  \<open>x509_ParseCertificate\<close> parses them.
\<close>

datatype any = AnyString string | AnyInt int | AnyBytes string | AnyBool bool

record pkix_AttributeTypeAndValue =
  Type :: "nat list"
  Value :: any

record x509_Certificate =
  Subject_Names :: "pkix_AttributeTypeAndValue list"

record 'm environment =
  url_Parse :: "string \<Rightarrow> error option"
  server :: "http_Request list \<Rightarrow> http_Request \<Rightarrow> error + http_Response"
  json_Unmarshal :: "string \<Rightarrow> error + 'm option"
  pem_Decode :: "string \<Rightarrow> string option"
  x509_ParseCertificate :: "string \<Rightarrow> error + x509_Certificate"

definition MethodGet :: string where
  "MethodGet = ''GET''"

definition http_NewRequestWithContext ::
    "'m environment \<Rightarrow> string \<Rightarrow> string \<Rightarrow> error + http_Request" where
  "http_NewRequestWithContext env method url =
     (case url_Parse env url of
        Some err \<Rightarrow> Inl err
      | None \<Rightarrow> Inr \<lparr>Method = method, URL = url, Header = []\<rparr>)"

definition Header_Add :: "string \<Rightarrow> string \<Rightarrow> http_Request \<Rightarrow> http_Request" where
  "Header_Add k v req = req\<lparr>Header := Header req @ [(k, v)]\<rparr>"

definition client_Do ::
    "'m environment \<Rightarrow> http_Request list \<Rightarrow> http_Request
      \<Rightarrow> (error + http_Response) \<times> http_Request list" where
  "client_Do env sent req = (server env sent req, sent @ [req])"

text \<open>
  Every request of the sources is built the same way: \<open>NewRequestWithContext\<close> for
  GET and a URL, then \<open>Header.Add("Authorization", "Bearer Oracle")\<close>. When the URL
  parses the result is \<open>bearer_request url\<close> (lemmas \<open>NewRequest_ok\<close> and
  \<open>Header_Add_bearer\<close>).
\<close>

definition bearer_request :: "string \<Rightarrow> http_Request" where
  "bearer_request url =
     \<lparr>Method = ''GET'', URL = url, Header = [(''Authorization'', ''Bearer Oracle'')]\<rparr>"

section \<open>The cluster-node provider (package oke)\<close>

type_synonym float32 = "32 word"

record OkeShapeConfig =
  OCpus :: float32
  MemoryInGBs :: float32
  NetworkingBandwidthInGbps :: float32
  MaxVnicAttachments :: int

record OkeMetadata =
  OkeTm :: string
  OkeK8Version :: string
  OkePoolId :: string
  OkeTenancyId :: string
  OkeClusterDisplayName :: string
  OkeAvailabilityDomain :: string
  OkeClusterId :: string
  OkePrivateSubnet :: string
  OkeImageName :: string

record OkeMetadataReponse =
  AvailabilityDomain :: string
  FaultDomain :: string
  CompartmentId :: string
  DisplayName :: string
  Hostname :: string
  Id :: string
  Image :: string
  Region :: string
  CanonicalRegionName :: string
  OciAdName :: string
  Shape :: string
  ShapeConfig :: OkeShapeConfig
  Metadata :: OkeMetadata

record okeProviderImpl =
  endpointV2 :: string
  endpointV1 :: string

text \<open>
  A call of \<open>Metadata\<close> returns the Go pair (pointer, error) and the requests sent so
  far. \<open>oke_Metadata_query\<close> is the first part of the function, up to the end of the
  \<open>if\<close>/\<open>else if\<close> on the version-2 reply: it leaves the response to read in
  \<open>resp\<close>, or returns early with an error.
\<close>

definition oke_Metadata_query ::
    "OkeMetadataReponse environment \<Rightarrow> okeProviderImpl \<Rightarrow> http_Request list
      \<Rightarrow> (error + http_Response) \<times> http_Request list" where
  "oke_Metadata_query env p sent =
     (case http_NewRequestWithContext env MethodGet (endpointV2 p) of
        Inl err \<Rightarrow> (Inl (fmt_Errorf_w ''failed to create request: '' err), sent)
      | Inr req0 \<Rightarrow>
          (case client_Do env sent (Header_Add ''Authorization'' ''Bearer Oracle'' req0) of
             (Inl err, sent1) \<Rightarrow>
               (Inl (fmt_Errorf_w
                   ''failed to query Oke instance metadata endpoint v2: '' err), sent1)
           | (Inr resp, sent1) \<Rightarrow>
               if StatusCode resp \<noteq> 200 then
                 (case http_NewRequestWithContext env MethodGet (endpointV1 p) of
                    Inl err \<Rightarrow> (Inl (fmt_Errorf_w ''failed to create request: '' err), sent1)
                  | Inr req1 \<Rightarrow>
                      (case client_Do env sent1
                              (Header_Add ''Authorization'' ''Bearer Oracle'' req1) of
                         (Inl err, sent2) \<Rightarrow>
                           (Inl (fmt_Errorf_w
                               ''failed to query Oke instance metadata endpiont v1: '' err), sent2)
                       | (Inr resp1, sent2) \<Rightarrow>
                           if StatusCode resp1 \<noteq> 200 then
                             (Inl (errors_New
                                 (''oke instance metadata endpoint v1 replied with status code: ''
                                   @ Status resp1)), sent2)
                           else (Inr resp1, sent2)))
               else (Inr resp, sent1)))"

definition oke_Metadata ::
    "OkeMetadataReponse environment \<Rightarrow> okeProviderImpl \<Rightarrow> http_Request list
      \<Rightarrow> (OkeMetadataReponse option \<times> error option) \<times> http_Request list" where
  "oke_Metadata env p sent =
     (case oke_Metadata_query env p sent of
        (Inl err, sent1) \<Rightarrow> ((None, Some err), sent1)
      | (Inr resp, sent1) \<Rightarrow>
          (case Body resp of
             Inl err \<Rightarrow>
               ((None, Some (fmt_Errorf_w
                   ''failed to read oke metadata instance endpoint reply: '' err)), sent1)
           | Inr respBody \<Rightarrow>
               (case json_Unmarshal env respBody of
                  Inl err \<Rightarrow>
                    ((None, Some (fmt_Errorf_w
                        ''failed to decode Oke instance metadata reply: '' err)), sent1)
                | Inr metadata \<Rightarrow> ((metadata, None), sent1))))"

section \<open>The bare-instance provider (package oci)\<close>

record OciShapeConfig =
  OCpus :: float32
  MemoryInGBs :: float32
  NetworkingBandwidthInGbps :: float32
  MaxVnicAttachments :: int

text \<open>
  Modelled from the spec: the field \<open>RawResponse\<close>, which \<open>Detector.Detect\<close> reads
  but the struct declaration in metadata.go does not list; it holds "the raw JSON
  response body". No statement of \<open>Metadata\<close> assigns it: it is whatever the decoder
  leaves there.
\<close>

record OciMetadataReponse =
  TenantId :: string
  AvailabilityDomain :: string
  FaultDomain :: string
  CompartmentId :: string
  DisplayName :: string
  Hostname :: string
  Id :: string
  Image :: string
  Region :: string
  CanonicalRegionName :: string
  OciAdName :: string
  Shape :: string
  ShapeConfig :: OciShapeConfig
  RawResponse :: string

record ociProviderImpl =
  endpointV1 :: string
  endpointV2 :: string
  identityCertEndpoint :: string

subsection \<open>The identity certificate\<close>

definition getIdentityCertificate ::
    "'m environment \<Rightarrow> string \<Rightarrow> http_Request list
      \<Rightarrow> (error + x509_Certificate) \<times> http_Request list" where
  "getIdentityCertificate env certEndpoint sent =
     (case http_NewRequestWithContext env MethodGet certEndpoint of
        Inl err \<Rightarrow> (Inl (fmt_Errorf_w ''failed to create request: '' err), sent)
      | Inr req0 \<Rightarrow>
          (case client_Do env sent (Header_Add ''Authorization'' ''Bearer Oracle'' req0) of
             (Inl err, sent1) \<Rightarrow>
               (Inl (fmt_Errorf_w ''failed to get certificate: '' err), sent1)
           | (Inr resp, sent1) \<Rightarrow>
               if StatusCode resp \<noteq> 200 then
                 (Inl (errors_New
                     (''oci instance certificate endpoint replied with status code: ''
                       @ Status resp)), sent1)
               else
                 (case Body resp of
                    Inl err \<Rightarrow>
                      (Inl (fmt_Errorf_w
                          ''failed to read oci identity certificate endpoint reply: '' err), sent1)
                  | Inr respBody \<Rightarrow>
                      (case pem_Decode env respBody of
                         None \<Rightarrow>
                           (Inl (errors_New
                               ''failed to parse the certificate, not valid pem data''), sent1)
                       | Some block_Bytes \<Rightarrow>
                           (case x509_ParseCertificate env block_Bytes of
                              Inl err \<Rightarrow>
                                (Inl (errors_New
                                    (''failed to parse the certificate: '' @ Error err)), sent1)
                            | Inr certificate \<Rightarrow> (Inr certificate, sent1))))))"

definition HasPrefix :: "string \<Rightarrow> string \<Rightarrow> bool" where
  "HasPrefix s prefix = (length prefix \<le> length s \<and> take (length prefix) s = prefix)"

text \<open>
  The loop over \<open>cert.Subject.Names\<close>. The type assertion \<open>nameAttr.Value.(string)\<close>
  has the one-result form, which panics on a value of any other dynamic type.
\<close>

fun extractTenancyID_names :: "pkix_AttributeTypeAndValue list \<Rightarrow> panic + string" where
  "extractTenancyID_names [] = Inr ''''"
| "extractTenancyID_names (nameAttr # names) =
     (case Value nameAttr of
        AnyString value \<Rightarrow>
          if HasPrefix value ''opc-tenant:'' then Inr (drop (length ''opc-tenant:'') value)
          else extractTenancyID_names names
      | _ \<Rightarrow> Inl InterfaceConversion)"

definition extractTenancyIDFromCertificate :: "x509_Certificate \<Rightarrow> panic + string" where
  "extractTenancyIDFromCertificate cert = extractTenancyID_names (Subject_Names cert)"

subsection \<open>Metadata\<close>

definition oci_Metadata_query ::
    "OciMetadataReponse environment \<Rightarrow> ociProviderImpl \<Rightarrow> http_Request list
      \<Rightarrow> (error + http_Response) \<times> http_Request list" where
  "oci_Metadata_query env p sent =
     (case http_NewRequestWithContext env MethodGet (endpointV2 p) of
        Inl err \<Rightarrow> (Inl (fmt_Errorf_w ''failed to create request: '' err), sent)
      | Inr req0 \<Rightarrow>
          (case client_Do env sent (Header_Add ''Authorization'' ''Bearer Oracle'' req0) of
             (Inl err, sent1) \<Rightarrow>
               (Inl (fmt_Errorf_w
                   ''failed to query Oci instance metadata endpoint v2: '' err), sent1)
           | (Inr resp, sent1) \<Rightarrow>
               if StatusCode resp \<noteq> 200 then
                 (case http_NewRequestWithContext env MethodGet (endpointV1 p) of
                    Inl err \<Rightarrow> (Inl (fmt_Errorf_w ''failed to create request: '' err), sent1)
                  | Inr req1 \<Rightarrow>
                      (case client_Do env sent1
                              (Header_Add ''Authorization'' ''Bearer Oracle'' req1) of
                         (Inl err, sent2) \<Rightarrow>
                           (Inl (fmt_Errorf_w
                               ''failed to query Oci instance metadata endpiont v1: '' err), sent2)
                       | (Inr resp1, sent2) \<Rightarrow>
                           if StatusCode resp1 \<noteq> 200 then
                             (Inl (errors_New
                                 (''oci instance metadata endpoint v1 replied with status code: ''
                                   @ Status resp1)), sent2)
                           else (Inr resp1, sent2)))
               else (Inr resp, sent1)))"

text \<open>
  In \<open>metadata.TenantId = extractTenancyIDFromCertificate(identityCert)\<close> the call is
  evaluated first and the store through \<open>metadata\<close> after it; the store panics when
  the decoder left \<open>metadata\<close> nil.
\<close>

definition oci_Metadata ::
    "OciMetadataReponse environment \<Rightarrow> ociProviderImpl \<Rightarrow> http_Request list
      \<Rightarrow> (panic + OciMetadataReponse option \<times> error option) \<times> http_Request list" where
  "oci_Metadata env p sent =
     (case oci_Metadata_query env p sent of
        (Inl err, sent1) \<Rightarrow> (Inr (None, Some err), sent1)
      | (Inr resp, sent1) \<Rightarrow>
          (case Body resp of
             Inl err \<Rightarrow>
               (Inr (None, Some (fmt_Errorf_w
                   ''failed to read oci metadata instance endpoint reply: '' err)), sent1)
           | Inr respBody \<Rightarrow>
               (case json_Unmarshal env respBody of
                  Inl err \<Rightarrow>
                    (Inr (None, Some (fmt_Errorf_w
                        ''failed to decode Oci instance metadata reply: '' err)), sent1)
                | Inr metadata \<Rightarrow>
                    (case getIdentityCertificate env (identityCertEndpoint p) sent1 of
                       (Inl err, sent2) \<Rightarrow>
                         (Inr (None, Some (fmt_Errorf_w
                             ''failed to retrieve oci identity certificate: '' err)), sent2)
                     | (Inr identityCert, sent2) \<Rightarrow>
                         (case extractTenancyIDFromCertificate identityCert of
                            Inl pn \<Rightarrow> (Inl pn, sent2)
                          | Inr tenancy \<Rightarrow>
                              (case metadata of
                                 None \<Rightarrow> (Inl NilPointerDereference, sent2)
                               | Some m \<Rightarrow>
                                   (Inr (Some (m\<lparr>TenantId := tenancy\<rparr>), None), sent2)))))))"

section \<open>The detectors\<close>

subsection \<open>Resource attributes and the semantic conventions\<close>

text \<open>
  The attributes of a \<open>pcommon.Resource\<close> are a sequence of key/value pairs; the
  detectors store string values only. \<open>Get\<close> finds the first pair with the key.
  \<open>InsertString\<close> appends the pair when the key is absent and does nothing
  otherwise; \<open>UpsertString\<close> sets the value of the first pair with the key, or appends
  the pair when the key is absent.
\<close>

type_synonym AttributeSet = "(string \<times> string) list"

definition Get :: "AttributeSet \<Rightarrow> string \<Rightarrow> string option" where
  "Get m k = map_of m k"

definition InsertString :: "string \<Rightarrow> string \<Rightarrow> AttributeSet \<Rightarrow> AttributeSet" where
  "InsertString k v m = (case Get m k of None \<Rightarrow> m @ [(k, v)] | Some _ \<Rightarrow> m)"

fun SetStringVal :: "string \<Rightarrow> string \<Rightarrow> AttributeSet \<Rightarrow> AttributeSet" where
  "SetStringVal k v [] = []"
| "SetStringVal k v (akv # m) =
     (if fst akv = k then (k, v) # m else akv # SetStringVal k v m)"

definition UpsertString :: "string \<Rightarrow> string \<Rightarrow> AttributeSet \<Rightarrow> AttributeSet" where
  "UpsertString k v m = (case Get m k of None \<Rightarrow> m @ [(k, v)] | Some _ \<Rightarrow> SetStringVal k v m)"

text \<open>The constants of \<open>go.opentelemetry.io/collector/semconv/v1.6.1\<close> the detectors use.\<close>

definition SchemaURL :: string where
  "SchemaURL = ''https://opentelemetry.io/schemas/1.6.1''"

definition AttributeCloudProvider :: string where
  "AttributeCloudProvider = ''cloud.provider''"

definition AttributeCloudPlatform :: string where
  "AttributeCloudPlatform = ''cloud.platform''"

definition AttributeCloudAccountID :: string where
  "AttributeCloudAccountID = ''cloud.account.id''"

definition AttributeCloudRegion :: string where
  "AttributeCloudRegion = ''cloud.region''"

definition AttributeCloudAvailabilityZone :: string where
  "AttributeCloudAvailabilityZone = ''cloud.availability_zone''"

definition AttributeHostID :: string where
  "AttributeHostID = ''host.id''"

definition AttributeHostImageID :: string where
  "AttributeHostImageID = ''host.image.id''"

definition AttributeK8SClusterName :: string where
  "AttributeK8SClusterName = ''k8s.cluster.name''"

text \<open>
  \<open>logger.Debug(msg, zap.Error(err))\<close> emits one entry; a call of \<open>Detect\<close> returns
  the entries it emitted. The detector's logger is taken to be present, as
  \<open>NewDetector\<close> stores it. The \<open>InsertString\<close> statements of \<open>Detect\<close> are folded
  over the list of their arguments, in the order of the source.
\<close>

datatype log_entry = Debug string error

subsection \<open>The cluster-node detector (package oke)\<close>

text \<open>
  The provider is an interface value: any function from the state of its world to the
  Go pair (pointer, error) and the new state, unless it panics.
\<close>

record 'w oke_Detector =
  provider :: "'w \<Rightarrow> (panic + OkeMetadataReponse option \<times> error option) \<times> 'w"

definition oke_Detect ::
    "'w oke_Detector \<Rightarrow> 'w
      \<Rightarrow> (panic + AttributeSet \<times> string \<times> error option) \<times> log_entry list \<times> 'w" where
  "oke_Detect d w =
     (case provider d w of
        (Inl pn, w1) \<Rightarrow> (Inl pn, [], w1)
      | (Inr (oke_ptr, Some err), w1) \<Rightarrow>
          (Inr ([], '''', None), [Debug ''OKE detector metadata retrieval failed'' err], w1)
      | (Inr (oke_ptr, None), w1) \<Rightarrow>
          (case oke_ptr of
             None \<Rightarrow> (Inl NilPointerDereference, [], w1)
           | Some oke \<Rightarrow>
               (Inr (fold (\<lambda>(k, v). InsertString k v)
                      [(AttributeCloudProvider, ''oci''),
                       (AttributeCloudPlatform, ''oci_oke''),
                       (AttributeCloudRegion, OkeMetadataReponse.CanonicalRegionName oke),
                       (AttributeK8SClusterName, OkeClusterDisplayName (Metadata oke)),
                       (AttributeCloudAccountID, OkeTenancyId (Metadata oke)),
                       (''oci.oke.clusterid'', OkeClusterId (Metadata oke)),
                       (''oci.oke.k8version'', OkeK8Version (Metadata oke))]
                      [],
                     SchemaURL, None), [], w1)))"

subsection \<open>The bare-instance detector (package oci)\<close>

definition attributePrefix :: string where
  "attributePrefix = ''oci.''"

record AttributeJPathConfig =
  Name :: string
  Path :: string

record 'w oci_Detector =
  provider :: "'w \<Rightarrow> (panic + OciMetadataReponse option \<times> error option) \<times> 'w"
  attributeJPaths :: "AttributeJPathConfig list"

text \<open>
  \<open>gjson.Get(json, path)\<close> is a parameter: \<open>None\<close> when the result does not exist,
  otherwise the result's \<open>String()\<close>. \<open>oci_Detect_attributeJPaths\<close> is the
  \<open>for\<close> loop over the configured entries.
\<close>

type_synonym gjson = "string \<Rightarrow> string \<Rightarrow> string option"

fun oci_Detect_attributeJPaths ::
    "gjson \<Rightarrow> string \<Rightarrow> AttributeJPathConfig list \<Rightarrow> AttributeSet \<Rightarrow> AttributeSet" where
  "oci_Detect_attributeJPaths gjson_Get raw [] attrs = attrs"
| "oci_Detect_attributeJPaths gjson_Get raw (entry # entries) attrs =
     oci_Detect_attributeJPaths gjson_Get raw entries
       (case gjson_Get raw (Path entry) of
          Some v \<Rightarrow> UpsertString (attributePrefix @ Name entry) v attrs
        | None \<Rightarrow> attrs)"

definition oci_Detect ::
    "gjson \<Rightarrow> 'w oci_Detector \<Rightarrow> 'w
      \<Rightarrow> (panic + AttributeSet \<times> string \<times> error option) \<times> log_entry list \<times> 'w" where
  "oci_Detect gjson_Get d w =
     (case provider d w of
        (Inl pn, w1) \<Rightarrow> (Inl pn, [], w1)
      | (Inr (oci_ptr, Some err), w1) \<Rightarrow>
          (Inr ([], '''', None), [Debug ''OCI detector metadata retrieval failed'' err], w1)
      | (Inr (oci_ptr, None), w1) \<Rightarrow>
          (case oci_ptr of
             None \<Rightarrow> (Inl NilPointerDereference, [], w1)
           | Some oci \<Rightarrow>
               (Inr (oci_Detect_attributeJPaths gjson_Get (RawResponse oci) (attributeJPaths d)
                      (fold (\<lambda>(k, v). InsertString k v)
                        [(AttributeCloudProvider, ''oci''),
                         (AttributeCloudAccountID, TenantId oci),
                         (AttributeCloudRegion, CanonicalRegionName oci),
                         (AttributeCloudAvailabilityZone, AvailabilityDomain oci),
                         (AttributeHostID, Id oci),
                         (AttributeHostImageID, Image oci),
                         (''oci.compartment.id'', CompartmentId oci),
                         (''oci.shape'', Shape oci)]
                        []),
                     SchemaURL, None), [], w1)))"

section \<open>Mock providers and example environments\<close>

text \<open>
  The \<open>MockProvider\<close> of the tests returns the pair it was set up with and has no
  state of its own.
\<close>

definition oci_MockProvider ::
    "OciMetadataReponse option \<times> error option
      \<Rightarrow> unit \<Rightarrow> (panic + OciMetadataReponse option \<times> error option) \<times> unit" where
  "oci_MockProvider ret w = (Inr ret, w)"

definition oke_MockProvider ::
    "OkeMetadataReponse option \<times> error option
      \<Rightarrow> unit \<Rightarrow> (panic + OkeMetadataReponse option \<times> error option) \<times> unit" where
  "oke_MockProvider ret w = (Inr ret, w)"

text \<open>The zero values of the two response structs, \<open>&OciMetadataReponse{}\<close> in Go.\<close>

definition OciMetadataReponse_zero :: OciMetadataReponse where
  "OciMetadataReponse_zero =
     \<lparr>TenantId = '''', AvailabilityDomain = '''', FaultDomain = '''', CompartmentId = '''',
      DisplayName = '''', Hostname = '''', Id = '''', Image = '''', Region = '''',
      CanonicalRegionName = '''', OciAdName = '''', Shape = '''',
      ShapeConfig = \<lparr>OCpus = 0, MemoryInGBs = 0, NetworkingBandwidthInGbps = 0,
        MaxVnicAttachments = 0\<rparr>,
      RawResponse = ''''\<rparr>"

definition OkeShapeConfig_zero :: OkeShapeConfig where
  "OkeShapeConfig_zero =
     \<lparr>OkeShapeConfig.OCpus = 0, OkeShapeConfig.MemoryInGBs = 0,
      OkeShapeConfig.NetworkingBandwidthInGbps = 0, OkeShapeConfig.MaxVnicAttachments = 0\<rparr>"

definition OkeMetadataReponse_zero :: OkeMetadataReponse where
  "OkeMetadataReponse_zero =
     \<lparr>OkeMetadataReponse.AvailabilityDomain = '''', OkeMetadataReponse.FaultDomain = '''',
      OkeMetadataReponse.CompartmentId = '''', OkeMetadataReponse.DisplayName = '''',
      OkeMetadataReponse.Hostname = '''', OkeMetadataReponse.Id = '''',
      OkeMetadataReponse.Image = '''', OkeMetadataReponse.Region = '''',
      OkeMetadataReponse.CanonicalRegionName = '''', OkeMetadataReponse.OciAdName = '''',
      OkeMetadataReponse.Shape = '''', OkeMetadataReponse.ShapeConfig = OkeShapeConfig_zero,
      Metadata = \<lparr>OkeTm = '''', OkeK8Version = '''', OkePoolId = '''', OkeTenancyId = '''',
        OkeClusterDisplayName = '''', OkeAvailabilityDomain = '''', OkeClusterId = '''',
        OkePrivateSubnet = '''', OkeImageName = ''''\<rparr>\<rparr>"

text \<open>
  The response that \<open>TestDetectAzureAvailable\<close> of the bare-instance detector sets its
  mock provider up with, and a \<open>gjson.Get\<close> that resolves the path \<open>a.b\<close> in the
  one document of the example and nothing else.
\<close>

definition oci_test_metadata :: OciMetadataReponse where
  "oci_test_metadata =
     \<lparr>TenantId = ''tenantId'', AvailabilityDomain = ''availabilityDomain'',
      FaultDomain = ''faultDomain'', CompartmentId = ''compartmentId'',
      DisplayName = ''displayName'', Hostname = ''hostname'', Id = ''hostId'',
      Image = ''hostImageId'', Region = ''region'',
      CanonicalRegionName = ''canonicalRegionName'', OciAdName = ''availability'',
      Shape = ''shape'',
      ShapeConfig = \<lparr>OCpus = 0, MemoryInGBs = 0, NetworkingBandwidthInGbps = 0,
        MaxVnicAttachments = 0\<rparr>,
      RawResponse = ''''\<rparr>"

definition gjson_example :: gjson where
  \<open>gjson_example json path =
     (if json = ''{"a":{"b":"v"}}'' \<and> path = ''a.b'' then Some ''v'' else None)\<close>

text \<open>The providers that \<open>NewProvider\<close> builds (the HTTP client is part of the environment).\<close>

definition metadataEndpointV2 :: string where
  "metadataEndpointV2 = ''http://169.254.169.254/opc/v2/instance/''"

definition metadataEndpointV1 :: string where
  "metadataEndpointV1 = ''http://169.254.169.254/opc/v1/instance/''"

definition oke_NewProvider :: okeProviderImpl where
  "oke_NewProvider =
     \<lparr>okeProviderImpl.endpointV2 = metadataEndpointV2,
      okeProviderImpl.endpointV1 = metadataEndpointV1\<rparr>"

definition oci_NewProvider :: ociProviderImpl where
  "oci_NewProvider =
     \<lparr>ociProviderImpl.endpointV1 = metadataEndpointV1,
      ociProviderImpl.endpointV2 = metadataEndpointV2,
      identityCertEndpoint = ''http://169.254.169.254/opc/v2/identity/cert.pem''\<rparr>"

text \<open>
  Example environments. Every URL parses; the server answers by URL alone; the only
  PEM data is \<open>PEM\<close>, whose block \<open>DER\<close> parses to a certificate with the subject
  attribute \<open>OU = opc-tenant:tenantId\<close> (the subject of the certificate in
  metadata_test.go). The two decoders answer as \<open>json.Unmarshal\<close> does on the two
  bodies the examples send; they answer every other body with an error.
\<close>

definition ok_response :: "string \<Rightarrow> http_Response" where
  "ok_response body = \<lparr>Status = ''200 OK'', StatusCode = 200, Body = Inr body\<rparr>"

definition not_found_response :: http_Response where
  "not_found_response =
     \<lparr>Status = ''404 Not Found'', StatusCode = 404, Body = Inr ''404 page not found''\<rparr>"

definition example_certificate :: x509_Certificate where
  "example_certificate =
     \<lparr>Subject_Names = [\<lparr>Type = [2, 5, 4, 11], Value = AnyString ''opc-tenant:tenantId''\<rparr>]\<rparr>"

definition example_environment ::
    "(string \<Rightarrow> error + http_Response) \<Rightarrow> (string \<Rightarrow> error + 'm option) \<Rightarrow> 'm environment" where
  "example_environment replies decode =
     \<lparr>url_Parse = (\<lambda>url. None),
      server = (\<lambda>sent req. replies (URL req)),
      json_Unmarshal = decode,
      pem_Decode = (\<lambda>data. if data = ''PEM'' then Some ''DER'' else None),
      x509_ParseCertificate = (\<lambda>der. if der = ''DER'' then Inr example_certificate
         else Inl (errors_New ''x509: malformed certificate''))\<rparr>"

definition oke_decode_example :: "string \<Rightarrow> error + OkeMetadataReponse option" where
  \<open>oke_decode_example body =
     (if body = ''null'' then Inr None
      else if body = ''{"canonicalRegionName":"us-phoenix-1"}''
      then Inr (Some (OkeMetadataReponse_zero
             \<lparr>OkeMetadataReponse.CanonicalRegionName := ''us-phoenix-1''\<rparr>))
      else Inl (errors_New ''unexpected end of JSON input''))\<close>

definition oci_decode_example :: "string \<Rightarrow> error + OciMetadataReponse option" where
  \<open>oci_decode_example body =
     (if body = ''null'' then Inr None
      else if body = ''{"canonicalRegionName":"us-phoenix-1"}''
      then Inr (Some (OciMetadataReponse_zero\<lparr>CanonicalRegionName := ''us-phoenix-1''\<rparr>))
      else Inl (errors_New ''unexpected end of JSON input''))\<close>

definition example_body :: string where
  \<open>example_body = ''{"canonicalRegionName":"us-phoenix-1"}''\<close>

definition primary_replies :: "string \<Rightarrow> error + http_Response" where
  "primary_replies url =
     (if url = ''http://169.254.169.254/opc/v2/instance/'' then Inr (ok_response example_body)
      else if url = ''http://169.254.169.254/opc/v2/identity/cert.pem''
      then Inr (ok_response ''PEM'')
      else Inr not_found_response)"

definition fallback_replies :: "string \<Rightarrow> error + http_Response" where
  "fallback_replies url =
     (if url = ''http://169.254.169.254/opc/v1/instance/'' then Inr (ok_response example_body)
      else if url = ''http://169.254.169.254/opc/v2/identity/cert.pem''
      then Inr (ok_response ''PEM'')
      else Inr not_found_response)"

definition cert_missing_replies :: "string \<Rightarrow> error + http_Response" where
  "cert_missing_replies url =
     (if url = ''http://169.254.169.254/opc/v2/instance/'' then Inr (ok_response example_body)
      else Inr not_found_response)"

definition null_replies :: "string \<Rightarrow> error + http_Response" where
  "null_replies url =
     (if url = ''http://169.254.169.254/opc/v2/instance/'' then Inr (ok_response ''null'')
      else if url = ''http://169.254.169.254/opc/v2/identity/cert.pem''
      then Inr (ok_response ''PEM'')
      else Inr not_found_response)"

section \<open>Properties\<close>

subsection \<open>The attribute set\<close>

lemma Get_SetStringVal:
  "Get (SetStringVal k v m) = (if Get m k = None then Get m else (Get m)(k \<mapsto> v))"
  by (induction m) (auto simp: Get_def fun_eq_iff)

lemma Get_append_absent:
  "Get m k = None \<Longrightarrow> Get (m @ [(k, v)]) = (Get m)(k \<mapsto> v)"
  by (auto simp: Get_def fun_eq_iff map_add_def split: option.splits)

lemma Get_UpsertString: "Get (UpsertString k v m) = (Get m)(k \<mapsto> v)"
  by (simp add: UpsertString_def Get_SetStringVal Get_append_absent split: option.splits)

lemma keys_SetStringVal: "map fst (SetStringVal k v m) = map fst m"
  by (induction m) auto

lemma distinct_UpsertString:
  "distinct (map fst m) \<Longrightarrow> distinct (map fst (UpsertString k v m))"
  by (auto simp: UpsertString_def keys_SetStringVal Get_def map_of_eq_None_iff split: option.splits)

lemma distinct_attributeJPaths:
  "distinct (map fst attrs) \<Longrightarrow>
   distinct (map fst (oci_Detect_attributeJPaths g raw entries attrs))"
  by (induction entries arbitrary: attrs) (auto simp: distinct_UpsertString split: option.splits)

lemma find_snoc:
  "find P (xs @ [x]) = (case find P xs of Some y \<Rightarrow> Some y | None \<Rightarrow> if P x then Some x else None)"
  by (induction xs) auto

lemma Get_attributeJPaths:
  "Get (oci_Detect_attributeJPaths g raw entries attrs) k =
     (case find (\<lambda>entry. attributePrefix @ Name entry = k \<and> g raw (Path entry) \<noteq> None)
             (rev entries) of
        Some entry \<Rightarrow> g raw (Path entry)
      | None \<Rightarrow> Get attrs k)"
proof (induction entries arbitrary: attrs)
  case Nil
  then show ?case by simp
next
  case (Cons entry entries)
  show ?case
    by (cases "g raw (Path entry)")
       (auto simp: Cons.IH find_snoc Get_UpsertString split: option.splits)
qed

subsection \<open>The detectors\<close>

lemma oci_Detect_success:
  assumes "oci_Detector.provider d w = (Inr (Some oci, None), w1)"
  shows "oci_Detect g d w =
     (Inr (oci_Detect_attributeJPaths g (RawResponse oci) (attributeJPaths d)
            [(''cloud.provider'', ''oci''),
             (''cloud.account.id'', TenantId oci),
             (''cloud.region'', CanonicalRegionName oci),
             (''cloud.availability_zone'', AvailabilityDomain oci),
             (''host.id'', Id oci),
             (''host.image.id'', Image oci),
             (''oci.compartment.id'', CompartmentId oci),
             (''oci.shape'', Shape oci)],
           SchemaURL, None), [], w1)"
  using assms
  by (simp add: oci_Detect_def InsertString_def Get_def AttributeCloudProvider_def
      AttributeCloudAccountID_def AttributeCloudRegion_def AttributeCloudAvailabilityZone_def
      AttributeHostID_def AttributeHostImageID_def)

lemma oke_Detect_success:
  assumes "oke_Detector.provider d w = (Inr (Some oke, None), w1)"
  shows "oke_Detect d w =
     (Inr ([(''cloud.provider'', ''oci''),
            (''cloud.platform'', ''oci_oke''),
            (''cloud.region'', OkeMetadataReponse.CanonicalRegionName oke),
            (''k8s.cluster.name'', OkeClusterDisplayName (Metadata oke)),
            (''cloud.account.id'', OkeTenancyId (Metadata oke)),
            (''oci.oke.clusterid'', OkeClusterId (Metadata oke)),
            (''oci.oke.k8version'', OkeK8Version (Metadata oke))],
           SchemaURL, None), [], w1)"
  using assms
  by (simp add: oke_Detect_def InsertString_def Get_def AttributeCloudProvider_def
      AttributeCloudAccountID_def AttributeCloudRegion_def AttributeCloudPlatform_def
      AttributeK8SClusterName_def)

text \<open>
  Claim C1. Whenever the provider's \<open>Metadata\<close> returns a non-nil error (whatever
  pointer comes with it), \<open>Detect\<close> of the bare-instance detector and of the
  cluster-node detector returns the empty attribute set, the empty schema URL and a nil
  error; the error is only logged at debug level.
\<close>

theorem Detect_swallows_provider_error:
  "(oci_Detector.provider d w = (Inr (m, Some err), w1) \<longrightarrow>
      oci_Detect g d w =
        (Inr ([], '''', None), [Debug ''OCI detector metadata retrieval failed'' err], w1))
   \<and> (oke_Detector.provider k v = (Inr (n, Some err'), v1) \<longrightarrow>
      oke_Detect k v =
        (Inr ([], '''', None), [Debug ''OKE detector metadata retrieval failed'' err'], v1))"
  by (simp add: oci_Detect_def oke_Detect_def split: option.splits)

theorem Detect_swallows_provider_error_witness:
  "oci_Detect (\<lambda>json path. None)
      \<lparr>oci_Detector.provider =
         oci_MockProvider (Some OciMetadataReponse_zero, Some (errors_New ''mock error'')),
       attributeJPaths = []\<rparr> ()
     = (Inr ([], '''', None),
        [Debug ''OCI detector metadata retrieval failed'' (errors_New ''mock error'')], ())
   \<and> oke_Detect
      \<lparr>oke_Detector.provider =
         oke_MockProvider (Some OkeMetadataReponse_zero, Some (errors_New ''mock error''))\<rparr> ()
     = (Inr ([], '''', None),
        [Debug ''OKE detector metadata retrieval failed'' (errors_New ''mock error'')], ())"
  using Detect_swallows_provider_error
    [where d = "\<lparr>oci_Detector.provider =
         oci_MockProvider (Some OciMetadataReponse_zero, Some (errors_New ''mock error'')),
       attributeJPaths = []\<rparr>" and w = "()" and m = "Some OciMetadataReponse_zero"
       and err = "errors_New ''mock error''" and ?w1.0 = "()"
       and k = "\<lparr>oke_Detector.provider =
         oke_MockProvider (Some OkeMetadataReponse_zero, Some (errors_New ''mock error''))\<rparr>"
       and v = "()" and n = "Some OkeMetadataReponse_zero" and err' = "errors_New ''mock error''"
       and ?v1.0 = "()" and g = "\<lambda>json path. None"]
  by (simp add: oci_MockProvider_def oke_MockProvider_def)

text \<open>
  Claim C2. On the metadata of the detector's own test, the bare-instance \<open>Detect\<close>
  returns eight attributes; \<open>cloud.platform\<close>, which the claim lists and the test
  expects with the value \<open>oci_compute\<close>, is not among them. (The cluster-node table
  is lemma \<open>oke_Detect_success\<close>.)
\<close>

theorem oci_Detect_omits_cloud_platform:
  "oci_Detect (\<lambda>json path. None)
      \<lparr>oci_Detector.provider = oci_MockProvider (Some oci_test_metadata, None),
       attributeJPaths = []\<rparr> ()
    = (Inr ([(''cloud.provider'', ''oci''),
             (''cloud.account.id'', ''tenantId''),
             (''cloud.region'', ''canonicalRegionName''),
             (''cloud.availability_zone'', ''availabilityDomain''),
             (''host.id'', ''hostId''),
             (''host.image.id'', ''hostImageId''),
             (''oci.compartment.id'', ''compartmentId''),
             (''oci.shape'', ''shape'')],
            ''https://opentelemetry.io/schemas/1.6.1'', None), [], ())"
  by (simp add: oci_Detect_def oci_MockProvider_def InsertString_def Get_def
      AttributeCloudProvider_def AttributeCloudAccountID_def AttributeCloudRegion_def
      AttributeCloudAvailabilityZone_def AttributeHostID_def AttributeHostImageID_def
      SchemaURL_def oci_test_metadata_def)

text \<open>
  Claim C9. For every list of JPath entries and every successful result of the
  bare-instance provider, \<open>Detect\<close> returns without error, the keys of its attribute
  set are distinct, and every key \<open>k\<close> is looked up as follows: if some configured
  entry has \<open>"oci." + Name = k\<close> and its path resolves in \<open>RawResponse\<close>, the
  value is the resolved string of the last such entry (overwriting any earlier value,
  the canonical ones included); otherwise the value is the canonical one, if \<open>k\<close> is a
  canonical key, and \<open>k\<close> is absent if not. An entry whose path does not resolve adds
  nothing.
\<close>

theorem oci_Detect_attributeJPaths_last_write_wins:
  assumes "oci_Detector.provider d w = (Inr (Some oci, None), w1)"
  shows "\<exists>attrs. oci_Detect g d w = (Inr (attrs, SchemaURL, None), [], w1)
     \<and> distinct (map fst attrs)
     \<and> (\<forall>k. Get attrs k =
          (case find (\<lambda>entry. ''oci.'' @ Name entry = k
                        \<and> g (RawResponse oci) (Path entry) \<noteq> None)
                  (rev (attributeJPaths d)) of
             Some entry \<Rightarrow> g (RawResponse oci) (Path entry)
           | None \<Rightarrow>
               Get [(''cloud.provider'', ''oci''),
                    (''cloud.account.id'', TenantId oci),
                    (''cloud.region'', CanonicalRegionName oci),
                    (''cloud.availability_zone'', AvailabilityDomain oci),
                    (''host.id'', Id oci),
                    (''host.image.id'', Image oci),
                    (''oci.compartment.id'', CompartmentId oci),
                    (''oci.shape'', Shape oci)] k))"
  by (simp add: oci_Detect_success [OF assms] Get_attributeJPaths distinct_attributeJPaths
      attributePrefix_def)

theorem oci_Detect_attributeJPaths_last_write_wins_witness:
  \<open>\<exists>attrs.
     oci_Detect gjson_example
       \<lparr>oci_Detector.provider =
          oci_MockProvider (Some (oci_test_metadata\<lparr>RawResponse := ''{"a":{"b":"v"}}''\<rparr>), None),
        attributeJPaths =
          [\<lparr>Name = ''x'', Path = ''a.b''\<rparr>, \<lparr>Name = ''y'', Path = ''a.c''\<rparr>]\<rparr> ()
       = (Inr (attrs, SchemaURL, None), [], ())
     \<and> Get attrs ''oci.x'' = Some ''v'' \<and> Get attrs ''oci.y'' = None
     \<and> Get attrs ''oci.shape'' = Some ''shape''\<close>
proof -
  let ?oci = \<open>oci_test_metadata\<lparr>RawResponse := ''{"a":{"b":"v"}}''\<rparr>\<close>
  let ?d = \<open>\<lparr>oci_Detector.provider = oci_MockProvider (Some ?oci, None),
        attributeJPaths =
          [\<lparr>Name = ''x'', Path = ''a.b''\<rparr>, \<lparr>Name = ''y'', Path = ''a.c''\<rparr>]\<rparr>\<close>
  have run: \<open>oci_Detector.provider ?d () = (Inr (Some ?oci, None), ())\<close>
    by (simp add: oci_MockProvider_def)
  from oci_Detect_attributeJPaths_last_write_wins [OF run, of gjson_example]
  obtain attrs where a: \<open>oci_Detect gjson_example ?d () = (Inr (attrs, SchemaURL, None), [], ())\<close>
    and g: \<open>\<And>k. Get attrs k =
          (case find (\<lambda>entry. ''oci.'' @ Name entry = k
                        \<and> gjson_example (RawResponse ?oci) (Path entry) \<noteq> None)
                  (rev (attributeJPaths ?d)) of
             Some entry \<Rightarrow> gjson_example (RawResponse ?oci) (Path entry)
           | None \<Rightarrow>
               Get [(''cloud.provider'', ''oci''),
                    (''cloud.account.id'', TenantId ?oci),
                    (''cloud.region'', CanonicalRegionName ?oci),
                    (''cloud.availability_zone'', AvailabilityDomain ?oci),
                    (''host.id'', Id ?oci),
                    (''host.image.id'', Image ?oci),
                    (''oci.compartment.id'', CompartmentId ?oci),
                    (''oci.shape'', Shape ?oci)] k)\<close>
    by blast
  have \<open>Get attrs ''oci.x'' = Some ''v''\<close>
    by (subst g) (simp add: gjson_example_def)
  moreover have \<open>Get attrs ''oci.y'' = None\<close>
    by (subst g) (simp add: gjson_example_def Get_def)
  moreover have \<open>Get attrs ''oci.shape'' = Some ''shape''\<close>
    by (subst g) (simp add: gjson_example_def Get_def oci_test_metadata_def)
  ultimately show ?thesis using a by blast
qed

subsection \<open>The tenancy id of a certificate\<close>

text \<open>
  Claim C7. On a certificate whose subject attribute values are all strings, the
  extraction returns what follows the prefix \<open>opc-tenant:\<close> in the first value, in
  subject order, that has the prefix, and the empty string (and no error) when no value
  has it.
\<close>

theorem extractTenancyID_first_match:
  "extractTenancyIDFromCertificate
      \<lparr>Subject_Names = map (\<lambda>(t, s). \<lparr>Type = t, Value = AnyString s\<rparr>) names\<rparr>
    = Inr (case find (\<lambda>s. HasPrefix s ''opc-tenant:'') (map snd names) of
             None \<Rightarrow> ''''
           | Some s \<Rightarrow> drop (length ''opc-tenant:'') s)"
  unfolding extractTenancyIDFromCertificate_def
  by (induction names) (auto split: prod.splits)

text \<open>
  Claim C10. The claim asks the extraction to skip a subject attribute whose value is
  not a string. The code panics instead: here the first attribute holds an integer and
  the second one holds the tenancy id, and the result is the panic of the type
  assertion, not \<open>tenantId\<close>.
\<close>

theorem extractTenancyID_panics_on_non_string:
  "extractTenancyIDFromCertificate
      \<lparr>Subject_Names =
         [\<lparr>Type = [2, 5, 4, 5], Value = AnyInt 7\<rparr>,
          \<lparr>Type = [2, 5, 4, 11], Value = AnyString ''opc-tenant:tenantId''\<rparr>]\<rparr>
    = Inl InterfaceConversion"
  by (simp add: extractTenancyIDFromCertificate_def)

subsection \<open>The requests of a call of Metadata\<close>

lemma NewRequest_ok:
  "url_Parse env url = None \<Longrightarrow>
   http_NewRequestWithContext env MethodGet url = Inr \<lparr>Method = ''GET'', URL = url, Header = []\<rparr>"
  by (simp add: http_NewRequestWithContext_def MethodGet_def)

lemma Header_Add_bearer:
  "Header_Add ''Authorization'' ''Bearer Oracle'' \<lparr>Method = ''GET'', URL = url, Header = []\<rparr>
     = bearer_request url"
  by (simp add: Header_Add_def bearer_request_def)

lemma oke_query_v2_transport:
  assumes "url_Parse env (okeProviderImpl.endpointV2 p) = None"
    and "server env sent (bearer_request (okeProviderImpl.endpointV2 p)) = Inl err"
  shows "oke_Metadata_query env p sent =
     (Inl (fmt_Errorf_w ''failed to query Oke instance metadata endpoint v2: '' err),
      sent @ [bearer_request (okeProviderImpl.endpointV2 p)])"
  using assms by (simp add: oke_Metadata_query_def NewRequest_ok Header_Add_bearer client_Do_def)

lemma oke_query_v2_ok:
  assumes "url_Parse env (okeProviderImpl.endpointV2 p) = None"
    and "server env sent (bearer_request (okeProviderImpl.endpointV2 p)) = Inr resp"
    and "StatusCode resp = 200"
  shows "oke_Metadata_query env p sent =
     (Inr resp, sent @ [bearer_request (okeProviderImpl.endpointV2 p)])"
  using assms by (simp add: oke_Metadata_query_def NewRequest_ok Header_Add_bearer client_Do_def)

lemma oke_query_v1:
  assumes "url_Parse env (okeProviderImpl.endpointV2 p) = None"
    and "server env sent (bearer_request (okeProviderImpl.endpointV2 p)) = Inr resp"
    and "StatusCode resp \<noteq> 200"
    and "url_Parse env (okeProviderImpl.endpointV1 p) = None"
  shows "oke_Metadata_query env p sent =
     (case server env (sent @ [bearer_request (okeProviderImpl.endpointV2 p)])
             (bearer_request (okeProviderImpl.endpointV1 p)) of
        Inl err \<Rightarrow>
          Inl (fmt_Errorf_w ''failed to query Oke instance metadata endpiont v1: '' err)
      | Inr resp1 \<Rightarrow>
          if StatusCode resp1 \<noteq> 200
          then Inl (errors_New
                 (''oke instance metadata endpoint v1 replied with status code: '' @ Status resp1))
          else Inr resp1,
      sent @ [bearer_request (okeProviderImpl.endpointV2 p),
              bearer_request (okeProviderImpl.endpointV1 p)])"
  using assms
  by (simp add: oke_Metadata_query_def NewRequest_ok Header_Add_bearer client_Do_def split: sum.splits)

lemma oci_query_v2_transport:
  assumes "url_Parse env (ociProviderImpl.endpointV2 p) = None"
    and "server env sent (bearer_request (ociProviderImpl.endpointV2 p)) = Inl err"
  shows "oci_Metadata_query env p sent =
     (Inl (fmt_Errorf_w ''failed to query Oci instance metadata endpoint v2: '' err),
      sent @ [bearer_request (ociProviderImpl.endpointV2 p)])"
  using assms by (simp add: oci_Metadata_query_def NewRequest_ok Header_Add_bearer client_Do_def)

lemma oci_query_v2_ok:
  assumes "url_Parse env (ociProviderImpl.endpointV2 p) = None"
    and "server env sent (bearer_request (ociProviderImpl.endpointV2 p)) = Inr resp"
    and "StatusCode resp = 200"
  shows "oci_Metadata_query env p sent =
     (Inr resp, sent @ [bearer_request (ociProviderImpl.endpointV2 p)])"
  using assms by (simp add: oci_Metadata_query_def NewRequest_ok Header_Add_bearer client_Do_def)

lemma oci_query_v1:
  assumes "url_Parse env (ociProviderImpl.endpointV2 p) = None"
    and "server env sent (bearer_request (ociProviderImpl.endpointV2 p)) = Inr resp"
    and "StatusCode resp \<noteq> 200"
    and "url_Parse env (ociProviderImpl.endpointV1 p) = None"
  shows "oci_Metadata_query env p sent =
     (case server env (sent @ [bearer_request (ociProviderImpl.endpointV2 p)])
             (bearer_request (ociProviderImpl.endpointV1 p)) of
        Inl err \<Rightarrow>
          Inl (fmt_Errorf_w ''failed to query Oci instance metadata endpiont v1: '' err)
      | Inr resp1 \<Rightarrow>
          if StatusCode resp1 \<noteq> 200
          then Inl (errors_New
                 (''oci instance metadata endpoint v1 replied with status code: '' @ Status resp1))
          else Inr resp1,
      sent @ [bearer_request (ociProviderImpl.endpointV2 p),
              bearer_request (ociProviderImpl.endpointV1 p)])"
  using assms
  by (simp add: oci_Metadata_query_def NewRequest_ok Header_Add_bearer client_Do_def split: sum.splits)

lemma getIdentityCertificate_sent:
  "snd (getIdentityCertificate env url sent) = sent
   \<or> snd (getIdentityCertificate env url sent) = sent @ [bearer_request url]"
  by (simp add: getIdentityCertificate_def http_NewRequestWithContext_def Header_Add_def
      bearer_request_def MethodGet_def client_Do_def split: option.splits sum.splits)

lemma oci_Metadata_sent:
  "oci_Metadata_query env p sent = (r, sent1) \<Longrightarrow>
   snd (oci_Metadata env p sent) = sent1
   \<or> snd (oci_Metadata env p sent) = sent1 @ [bearer_request (identityCertEndpoint p)]"
  using getIdentityCertificate_sent [of env "identityCertEndpoint p" sent1]
  by (auto simp: oci_Metadata_def split: sum.splits option.splits prod.splits)

lemma oke_Metadata_sent:
  "oke_Metadata_query env p sent = (r, sent1) \<Longrightarrow> snd (oke_Metadata env p sent) = sent1"
  by (auto simp: oke_Metadata_def split: sum.splits option.splits prod.splits)

lemmas example_simps =
  example_environment_def oke_NewProvider_def oci_NewProvider_def
  metadataEndpointV2_def metadataEndpointV1_def ok_response_def not_found_response_def
  bearer_request_def example_body_def oke_decode_example_def oci_decode_example_def
  getIdentityCertificate_def http_NewRequestWithContext_def MethodGet_def Header_Add_def
  client_Do_def extractTenancyIDFromCertificate_def example_certificate_def HasPrefix_def

text \<open>
  Claim C3. For both providers, once the version-2 request can be built: if its
  transport call fails, \<open>Metadata\<close> fails with the transport error wrapped, and the
  version-2 request is the only one sent; if it is answered with a status other than
  200 (and the version-1 request can be built), exactly one request follows to the
  version-1 endpoint, with the same bearer header (the bare-instance provider may send
  one more, to the certificate endpoint, after a version-1 success); and if the
  version-1 answer is not 200 either, \<open>Metadata\<close> fails with an error whose message
  ends in that answer's status text, and nothing more is sent.
\<close>

theorem Metadata_version_fallback:
  fixes oke_env :: "OkeMetadataReponse environment" and oci_env :: "OciMetadataReponse environment"
  shows
  "(url_Parse oke_env (okeProviderImpl.endpointV2 p) = None \<longrightarrow>
      (\<forall>err. server oke_env sent (bearer_request (okeProviderImpl.endpointV2 p)) = Inl err \<longrightarrow>
         oke_Metadata oke_env p sent =
           ((None, Some (fmt_Errorf_w
               ''failed to query Oke instance metadata endpoint v2: '' err)),
            sent @ [bearer_request (okeProviderImpl.endpointV2 p)]))
    \<and> (\<forall>resp. server oke_env sent (bearer_request (okeProviderImpl.endpointV2 p)) = Inr resp
          \<and> StatusCode resp \<noteq> 200 \<and> url_Parse oke_env (okeProviderImpl.endpointV1 p) = None \<longrightarrow>
         snd (oke_Metadata oke_env p sent) =
           sent @ [bearer_request (okeProviderImpl.endpointV2 p),
                   bearer_request (okeProviderImpl.endpointV1 p)]
         \<and> (\<forall>resp1. server oke_env (sent @ [bearer_request (okeProviderImpl.endpointV2 p)])
                        (bearer_request (okeProviderImpl.endpointV1 p)) = Inr resp1
               \<and> StatusCode resp1 \<noteq> 200 \<longrightarrow>
              oke_Metadata oke_env p sent =
                ((None, Some (errors_New
                   (''oke instance metadata endpoint v1 replied with status code: ''
                     @ Status resp1))),
                 sent @ [bearer_request (okeProviderImpl.endpointV2 p),
                         bearer_request (okeProviderImpl.endpointV1 p)]))))
   \<and> (url_Parse oci_env (ociProviderImpl.endpointV2 q) = None \<longrightarrow>
      (\<forall>err. server oci_env sent (bearer_request (ociProviderImpl.endpointV2 q)) = Inl err \<longrightarrow>
         oci_Metadata oci_env q sent =
           (Inr (None, Some (fmt_Errorf_w
               ''failed to query Oci instance metadata endpoint v2: '' err)),
            sent @ [bearer_request (ociProviderImpl.endpointV2 q)]))
    \<and> (\<forall>resp. server oci_env sent (bearer_request (ociProviderImpl.endpointV2 q)) = Inr resp
          \<and> StatusCode resp \<noteq> 200 \<and> url_Parse oci_env (ociProviderImpl.endpointV1 q) = None \<longrightarrow>
         (\<exists>rest. snd (oci_Metadata oci_env q sent) =
             sent @ [bearer_request (ociProviderImpl.endpointV2 q),
                     bearer_request (ociProviderImpl.endpointV1 q)] @ rest
           \<and> (rest = [] \<or> rest = [bearer_request (identityCertEndpoint q)]))
         \<and> (\<forall>resp1. server oci_env (sent @ [bearer_request (ociProviderImpl.endpointV2 q)])
                        (bearer_request (ociProviderImpl.endpointV1 q)) = Inr resp1
               \<and> StatusCode resp1 \<noteq> 200 \<longrightarrow>
              oci_Metadata oci_env q sent =
                (Inr (None, Some (errors_New
                   (''oci instance metadata endpoint v1 replied with status code: ''
                     @ Status resp1))),
                 sent @ [bearer_request (ociProviderImpl.endpointV2 q),
                         bearer_request (ociProviderImpl.endpointV1 q)]))))"
proof -
  have oke_transport: "oke_Metadata oke_env p sent =
           ((None, Some (fmt_Errorf_w
               ''failed to query Oke instance metadata endpoint v2: '' err)),
            sent @ [bearer_request (okeProviderImpl.endpointV2 p)])"
    if "url_Parse oke_env (okeProviderImpl.endpointV2 p) = None"
      and "server oke_env sent (bearer_request (okeProviderImpl.endpointV2 p)) = Inl err" for err
    using that by (simp add: oke_Metadata_def oke_query_v2_transport)
  have oke_sent: "snd (oke_Metadata oke_env p sent) =
           sent @ [bearer_request (okeProviderImpl.endpointV2 p),
                   bearer_request (okeProviderImpl.endpointV1 p)]"
    if "url_Parse oke_env (okeProviderImpl.endpointV2 p) = None"
      and "server oke_env sent (bearer_request (okeProviderImpl.endpointV2 p)) = Inr resp"
      and "StatusCode resp \<noteq> 200" and "url_Parse oke_env (okeProviderImpl.endpointV1 p) = None"
    for resp
    using oke_Metadata_sent [OF oke_query_v1 [OF that]] .
  have oke_status: "oke_Metadata oke_env p sent =
                ((None, Some (errors_New
                   (''oke instance metadata endpoint v1 replied with status code: ''
                     @ Status resp1))),
                 sent @ [bearer_request (okeProviderImpl.endpointV2 p),
                         bearer_request (okeProviderImpl.endpointV1 p)])"
    if "url_Parse oke_env (okeProviderImpl.endpointV2 p) = None"
      and "server oke_env sent (bearer_request (okeProviderImpl.endpointV2 p)) = Inr resp"
      and "StatusCode resp \<noteq> 200" and "url_Parse oke_env (okeProviderImpl.endpointV1 p) = None"
      and "server oke_env (sent @ [bearer_request (okeProviderImpl.endpointV2 p)])
                        (bearer_request (okeProviderImpl.endpointV1 p)) = Inr resp1"
      and "StatusCode resp1 \<noteq> 200"
    for resp resp1
    using that by (simp add: oke_Metadata_def oke_query_v1)
  have oci_transport: "oci_Metadata oci_env q sent =
           (Inr (None, Some (fmt_Errorf_w
               ''failed to query Oci instance metadata endpoint v2: '' err)),
            sent @ [bearer_request (ociProviderImpl.endpointV2 q)])"
    if "url_Parse oci_env (ociProviderImpl.endpointV2 q) = None"
      and "server oci_env sent (bearer_request (ociProviderImpl.endpointV2 q)) = Inl err" for err
    using that by (simp add: oci_Metadata_def oci_query_v2_transport)
  have oci_sent: "\<exists>rest. snd (oci_Metadata oci_env q sent) =
             sent @ [bearer_request (ociProviderImpl.endpointV2 q),
                     bearer_request (ociProviderImpl.endpointV1 q)] @ rest
           \<and> (rest = [] \<or> rest = [bearer_request (identityCertEndpoint q)])"
    if "url_Parse oci_env (ociProviderImpl.endpointV2 q) = None"
      and "server oci_env sent (bearer_request (ociProviderImpl.endpointV2 q)) = Inr resp"
      and "StatusCode resp \<noteq> 200" and "url_Parse oci_env (ociProviderImpl.endpointV1 q) = None"
    for resp
    using oci_Metadata_sent [OF oci_query_v1 [OF that]] by auto
  have oci_status: "oci_Metadata oci_env q sent =
                (Inr (None, Some (errors_New
                   (''oci instance metadata endpoint v1 replied with status code: ''
                     @ Status resp1))),
                 sent @ [bearer_request (ociProviderImpl.endpointV2 q),
                         bearer_request (ociProviderImpl.endpointV1 q)])"
    if "url_Parse oci_env (ociProviderImpl.endpointV2 q) = None"
      and "server oci_env sent (bearer_request (ociProviderImpl.endpointV2 q)) = Inr resp"
      and "StatusCode resp \<noteq> 200" and "url_Parse oci_env (ociProviderImpl.endpointV1 q) = None"
      and "server oci_env (sent @ [bearer_request (ociProviderImpl.endpointV2 q)])
                        (bearer_request (ociProviderImpl.endpointV1 q)) = Inr resp1"
      and "StatusCode resp1 \<noteq> 200"
    for resp resp1
    using that by (simp add: oci_Metadata_def oci_query_v1)
  show ?thesis
    using oke_transport oke_sent oke_status oci_transport oci_sent oci_status by blast
qed

theorem Metadata_version_fallback_witness:
  "oke_Metadata (example_environment (\<lambda>url. Inl (errors_New ''connection refused''))
       oke_decode_example) oke_NewProvider []
     = ((None, Some (fmt_Errorf_w ''failed to query Oke instance metadata endpoint v2: ''
           (errors_New ''connection refused''))),
        [bearer_request ''http://169.254.169.254/opc/v2/instance/''])
   \<and> oke_Metadata (example_environment (\<lambda>url. Inr not_found_response) oke_decode_example)
       oke_NewProvider []
     = ((None, Some (errors_New
           ''oke instance metadata endpoint v1 replied with status code: 404 Not Found'')),
        [bearer_request ''http://169.254.169.254/opc/v2/instance/'',
         bearer_request ''http://169.254.169.254/opc/v1/instance/''])
   \<and> oci_Metadata (example_environment (\<lambda>url. Inl (errors_New ''connection refused''))
       oci_decode_example) oci_NewProvider []
     = (Inr (None, Some (fmt_Errorf_w ''failed to query Oci instance metadata endpoint v2: ''
           (errors_New ''connection refused''))),
        [bearer_request ''http://169.254.169.254/opc/v2/instance/''])
   \<and> oci_Metadata (example_environment (\<lambda>url. Inr not_found_response) oci_decode_example)
       oci_NewProvider []
     = (Inr (None, Some (errors_New
           ''oci instance metadata endpoint v1 replied with status code: 404 Not Found'')),
        [bearer_request ''http://169.254.169.254/opc/v2/instance/'',
         bearer_request ''http://169.254.169.254/opc/v1/instance/''])"
  using
    Metadata_version_fallback
      [where oke_env = "example_environment (\<lambda>url. Inl (errors_New ''connection refused''))
          oke_decode_example"
        and oci_env = "example_environment (\<lambda>url. Inl (errors_New ''connection refused''))
          oci_decode_example"
        and p = oke_NewProvider and q = oci_NewProvider and sent = "[]"]
    Metadata_version_fallback
      [where oke_env = "example_environment (\<lambda>url. Inr not_found_response) oke_decode_example"
        and oci_env = "example_environment (\<lambda>url. Inr not_found_response) oci_decode_example"
        and p = oke_NewProvider and q = oci_NewProvider and sent = "[]"]
  by (simp add: example_environment_def oke_NewProvider_def oci_NewProvider_def
      not_found_response_def metadataEndpointV2_def metadataEndpointV1_def)

subsection \<open>The response of a call of Metadata\<close>

lemma oke_Metadata_after_query:
  "oke_Metadata_query env p sent = (Inr resp, sent1) \<Longrightarrow>
   oke_Metadata env p sent =
     (case Body resp of
        Inl err \<Rightarrow>
          (None, Some (fmt_Errorf_w ''failed to read oke metadata instance endpoint reply: '' err))
      | Inr respBody \<Rightarrow>
          (case json_Unmarshal env respBody of
             Inl err \<Rightarrow>
               (None, Some (fmt_Errorf_w ''failed to decode Oke instance metadata reply: '' err))
           | Inr metadata \<Rightarrow> (metadata, None)),
      sent1)"
  by (simp add: oke_Metadata_def split: sum.splits)

lemma oci_Metadata_decoded:
  assumes "oci_Metadata_query env p sent = (Inr resp, sent1)"
    and "Body resp = Inr body" and "json_Unmarshal env body = Inr metadata"
  shows "oci_Metadata env p sent =
     (case getIdentityCertificate env (identityCertEndpoint p) sent1 of
        (Inl err, sent2) \<Rightarrow>
          (Inr (None, Some (fmt_Errorf_w ''failed to retrieve oci identity certificate: '' err)),
           sent2)
      | (Inr identityCert, sent2) \<Rightarrow>
          (case extractTenancyIDFromCertificate identityCert of
             Inl pn \<Rightarrow> (Inl pn, sent2)
           | Inr tenancy \<Rightarrow>
               (case metadata of
                  None \<Rightarrow> (Inl NilPointerDereference, sent2)
                | Some m \<Rightarrow> (Inr (Some (m\<lparr>TenantId := tenancy\<rparr>), None), sent2))))"
  using assms by (simp add: oci_Metadata_def)

lemma oci_Metadata_value:
  assumes "oci_Metadata_query env p sent = (Inr resp, sent1)"
  shows "fst (oci_Metadata env p sent) =
     (case Body resp of
        Inl err \<Rightarrow>
          Inr (None, Some (fmt_Errorf_w
            ''failed to read oci metadata instance endpoint reply: '' err))
      | Inr body \<Rightarrow>
          (case json_Unmarshal env body of
             Inl err \<Rightarrow>
               Inr (None, Some (fmt_Errorf_w
                 ''failed to decode Oci instance metadata reply: '' err))
           | Inr metadata \<Rightarrow>
               (case fst (getIdentityCertificate env (identityCertEndpoint p) sent1) of
                  Inl err \<Rightarrow>
                    Inr (None, Some (fmt_Errorf_w
                      ''failed to retrieve oci identity certificate: '' err))
                | Inr identityCert \<Rightarrow>
                    (case extractTenancyIDFromCertificate identityCert of
                       Inl pn \<Rightarrow> Inl pn
                     | Inr tenancy \<Rightarrow>
                         (case metadata of
                            None \<Rightarrow> Inl NilPointerDereference
                          | Some m \<Rightarrow> Inr (Some (m\<lparr>TenantId := tenancy\<rparr>), None))))))"
  using assms
  by (simp add: oci_Metadata_def split: sum.splits prod.splits option.splits)

text \<open>
  Claim C5. When the version-2 endpoint answers with status 200 and a body that
  \<open>json.Unmarshal\<close> decodes into a response \<open>m\<close>, the cluster-node \<open>Metadata\<close> returns
  exactly \<open>m\<close> and a nil error after that single request. The bare-instance
  \<open>Metadata\<close> then runs the certificate step; when that yields a certificate with
  tenancy id \<open>tenancy\<close>, it returns \<open>m\<close> with \<open>TenantId\<close> replaced by \<open>tenancy\<close>
  (whatever the body held for it), every other field as decoded, and a nil error.
\<close>

theorem Metadata_primary_success:
  fixes oke_env :: "OkeMetadataReponse environment" and oci_env :: "OciMetadataReponse environment"
  shows
  "(url_Parse oke_env (okeProviderImpl.endpointV2 p) = None
      \<and> server oke_env sent (bearer_request (okeProviderImpl.endpointV2 p)) = Inr resp
      \<and> StatusCode resp = 200 \<and> Body resp = Inr body
      \<and> json_Unmarshal oke_env body = Inr (Some m) \<longrightarrow>
    oke_Metadata oke_env p sent =
      ((Some m, None), sent @ [bearer_request (okeProviderImpl.endpointV2 p)]))
   \<and> (url_Parse oci_env (ociProviderImpl.endpointV2 q) = None
      \<and> server oci_env sent (bearer_request (ociProviderImpl.endpointV2 q)) = Inr resp'
      \<and> StatusCode resp' = 200 \<and> Body resp' = Inr body'
      \<and> json_Unmarshal oci_env body' = Inr (Some m')
      \<and> getIdentityCertificate oci_env (identityCertEndpoint q)
            (sent @ [bearer_request (ociProviderImpl.endpointV2 q)]) = (Inr cert, sent2)
      \<and> extractTenancyIDFromCertificate cert = Inr tenancy \<longrightarrow>
    oci_Metadata oci_env q sent = (Inr (Some (m'\<lparr>TenantId := tenancy\<rparr>), None), sent2))"
proof (intro conjI impI)
  assume a: "url_Parse oke_env (okeProviderImpl.endpointV2 p) = None
      \<and> server oke_env sent (bearer_request (okeProviderImpl.endpointV2 p)) = Inr resp
      \<and> StatusCode resp = 200 \<and> Body resp = Inr body
      \<and> json_Unmarshal oke_env body = Inr (Some m)"
  then have "oke_Metadata_query oke_env p sent =
      (Inr resp, sent @ [bearer_request (okeProviderImpl.endpointV2 p)])"
    by (simp add: oke_query_v2_ok)
  from oke_Metadata_after_query [OF this] a
  show "oke_Metadata oke_env p sent =
      ((Some m, None), sent @ [bearer_request (okeProviderImpl.endpointV2 p)])"
    by simp
next
  assume a: "url_Parse oci_env (ociProviderImpl.endpointV2 q) = None
      \<and> server oci_env sent (bearer_request (ociProviderImpl.endpointV2 q)) = Inr resp'
      \<and> StatusCode resp' = 200 \<and> Body resp' = Inr body'
      \<and> json_Unmarshal oci_env body' = Inr (Some m')
      \<and> getIdentityCertificate oci_env (identityCertEndpoint q)
            (sent @ [bearer_request (ociProviderImpl.endpointV2 q)]) = (Inr cert, sent2)
      \<and> extractTenancyIDFromCertificate cert = Inr tenancy"
  then have "oci_Metadata_query oci_env q sent =
      (Inr resp', sent @ [bearer_request (ociProviderImpl.endpointV2 q)])"
    by (simp add: oci_query_v2_ok)
  from oci_Metadata_decoded [OF this, of body' "Some m'"] a
  show "oci_Metadata oci_env q sent = (Inr (Some (m'\<lparr>TenantId := tenancy\<rparr>), None), sent2)"
    by simp
qed

theorem Metadata_primary_success_witness:
  "oke_Metadata (example_environment primary_replies oke_decode_example) oke_NewProvider []
     = ((Some (OkeMetadataReponse_zero
           \<lparr>OkeMetadataReponse.CanonicalRegionName := ''us-phoenix-1''\<rparr>), None),
        [bearer_request ''http://169.254.169.254/opc/v2/instance/''])
   \<and> oci_Metadata (example_environment primary_replies oci_decode_example) oci_NewProvider []
     = (Inr (Some (OciMetadataReponse_zero
           \<lparr>CanonicalRegionName := ''us-phoenix-1'', TenantId := ''tenantId''\<rparr>), None),
        [bearer_request ''http://169.254.169.254/opc/v2/instance/'',
         bearer_request ''http://169.254.169.254/opc/v2/identity/cert.pem''])"
  using Metadata_primary_success
    [where oke_env = "example_environment primary_replies oke_decode_example"
      and oci_env = "example_environment primary_replies oci_decode_example"
      and p = oke_NewProvider and q = oci_NewProvider and sent = "[]"
      and resp = "ok_response example_body" and resp' = "ok_response example_body"
      and body = example_body and body' = example_body
      and m = "OkeMetadataReponse_zero
           \<lparr>OkeMetadataReponse.CanonicalRegionName := ''us-phoenix-1''\<rparr>"
      and m' = "OciMetadataReponse_zero\<lparr>CanonicalRegionName := ''us-phoenix-1''\<rparr>"
      and cert = example_certificate and tenancy = "''tenantId''"
      and ?sent2.0 = "[bearer_request ''http://169.254.169.254/opc/v2/instance/'',
         bearer_request ''http://169.254.169.254/opc/v2/identity/cert.pem'']"]
  by (simp add: example_environment_def oke_NewProvider_def oci_NewProvider_def
      metadataEndpointV2_def metadataEndpointV1_def primary_replies_def ok_response_def
      bearer_request_def example_body_def oke_decode_example_def oci_decode_example_def
      getIdentityCertificate_def http_NewRequestWithContext_def MethodGet_def Header_Add_def
      client_Do_def extractTenancyIDFromCertificate_def example_certificate_def HasPrefix_def)

text \<open>
  Claim C4. Let the version-2 endpoint answer with a status other than 200 and the
  version-1 endpoint with status 200. If the version-1 body decodes into \<open>m\<close>, the
  cluster-node \<open>Metadata\<close> returns exactly \<open>m\<close> and a nil error, and the bare-instance
  \<open>Metadata\<close> returns \<open>m\<close> with \<open>TenantId\<close> from the certificate step, as for a
  primary success. Moreover the caller cannot tell the fallback from a primary success:
  in any second environment whose version-2 endpoint gives that same answer directly,
  with the same decoder (and, for the bare-instance provider, the same outcome of the
  certificate step), \<open>Metadata\<close> returns the same pair.
\<close>

theorem Metadata_fallback_transparent:
  fixes oke_env oke_env2 :: "OkeMetadataReponse environment"
    and oci_env oci_env2 :: "OciMetadataReponse environment"
  shows
  "(url_Parse oke_env (okeProviderImpl.endpointV2 p) = None
      \<and> server oke_env sent (bearer_request (okeProviderImpl.endpointV2 p)) = Inr resp
      \<and> StatusCode resp \<noteq> 200
      \<and> url_Parse oke_env (okeProviderImpl.endpointV1 p) = None
      \<and> server oke_env (sent @ [bearer_request (okeProviderImpl.endpointV2 p)])
            (bearer_request (okeProviderImpl.endpointV1 p)) = Inr resp1
      \<and> StatusCode resp1 = 200 \<longrightarrow>
    (\<forall>body m. Body resp1 = Inr body \<and> json_Unmarshal oke_env body = Inr (Some m) \<longrightarrow>
       oke_Metadata oke_env p sent =
         ((Some m, None),
          sent @ [bearer_request (okeProviderImpl.endpointV2 p),
                  bearer_request (okeProviderImpl.endpointV1 p)]))
    \<and> (url_Parse oke_env2 (okeProviderImpl.endpointV2 p) = None
        \<and> server oke_env2 sent (bearer_request (okeProviderImpl.endpointV2 p)) = Inr resp1
        \<and> json_Unmarshal oke_env2 = json_Unmarshal oke_env \<longrightarrow>
       fst (oke_Metadata oke_env p sent) = fst (oke_Metadata oke_env2 p sent)))
   \<and> (url_Parse oci_env (ociProviderImpl.endpointV2 q) = None
      \<and> server oci_env sent (bearer_request (ociProviderImpl.endpointV2 q)) = Inr resp'
      \<and> StatusCode resp' \<noteq> 200
      \<and> url_Parse oci_env (ociProviderImpl.endpointV1 q) = None
      \<and> server oci_env (sent @ [bearer_request (ociProviderImpl.endpointV2 q)])
            (bearer_request (ociProviderImpl.endpointV1 q)) = Inr resp1'
      \<and> StatusCode resp1' = 200 \<longrightarrow>
    (\<forall>body m cert sent2 tenancy.
       Body resp1' = Inr body \<and> json_Unmarshal oci_env body = Inr (Some m)
       \<and> getIdentityCertificate oci_env (identityCertEndpoint q)
            (sent @ [bearer_request (ociProviderImpl.endpointV2 q),
                     bearer_request (ociProviderImpl.endpointV1 q)]) = (Inr cert, sent2)
       \<and> extractTenancyIDFromCertificate cert = Inr tenancy \<longrightarrow>
       oci_Metadata oci_env q sent = (Inr (Some (m\<lparr>TenantId := tenancy\<rparr>), None), sent2))
    \<and> (url_Parse oci_env2 (ociProviderImpl.endpointV2 q) = None
        \<and> server oci_env2 sent (bearer_request (ociProviderImpl.endpointV2 q)) = Inr resp1'
        \<and> json_Unmarshal oci_env2 = json_Unmarshal oci_env
        \<and> fst (getIdentityCertificate oci_env2 (identityCertEndpoint q)
                 (sent @ [bearer_request (ociProviderImpl.endpointV2 q)]))
          = fst (getIdentityCertificate oci_env (identityCertEndpoint q)
                 (sent @ [bearer_request (ociProviderImpl.endpointV2 q),
                          bearer_request (ociProviderImpl.endpointV1 q)])) \<longrightarrow>
       fst (oci_Metadata oci_env q sent) = fst (oci_Metadata oci_env2 q sent)))"
proof -
  have oke: "(\<forall>body m. Body resp1 = Inr body \<and> json_Unmarshal oke_env body = Inr (Some m) \<longrightarrow>
       oke_Metadata oke_env p sent =
         ((Some m, None),
          sent @ [bearer_request (okeProviderImpl.endpointV2 p),
                  bearer_request (okeProviderImpl.endpointV1 p)]))
    \<and> (url_Parse oke_env2 (okeProviderImpl.endpointV2 p) = None
        \<and> server oke_env2 sent (bearer_request (okeProviderImpl.endpointV2 p)) = Inr resp1
        \<and> json_Unmarshal oke_env2 = json_Unmarshal oke_env \<longrightarrow>
       fst (oke_Metadata oke_env p sent) = fst (oke_Metadata oke_env2 p sent))"
    if v2: "url_Parse oke_env (okeProviderImpl.endpointV2 p) = None"
        "server oke_env sent (bearer_request (okeProviderImpl.endpointV2 p)) = Inr resp"
        "StatusCode resp \<noteq> 200"
        "url_Parse oke_env (okeProviderImpl.endpointV1 p) = None"
      and v1: "server oke_env (sent @ [bearer_request (okeProviderImpl.endpointV2 p)])
            (bearer_request (okeProviderImpl.endpointV1 p)) = Inr resp1"
        "StatusCode resp1 = 200"
  proof -
    have q1: "oke_Metadata_query oke_env p sent =
        (Inr resp1, sent @ [bearer_request (okeProviderImpl.endpointV2 p),
                            bearer_request (okeProviderImpl.endpointV1 p)])"
      using oke_query_v1 [OF v2] v1 by simp
    have q2: "oke_Metadata_query oke_env2 p sent =
        (Inr resp1, sent @ [bearer_request (okeProviderImpl.endpointV2 p)])"
      if "url_Parse oke_env2 (okeProviderImpl.endpointV2 p) = None"
        and "server oke_env2 sent (bearer_request (okeProviderImpl.endpointV2 p)) = Inr resp1"
      using oke_query_v2_ok [OF that v1(2)] .
    have direct: "oke_Metadata oke_env p sent =
         ((Some m, None),
          sent @ [bearer_request (okeProviderImpl.endpointV2 p),
                  bearer_request (okeProviderImpl.endpointV1 p)])"
      if "Body resp1 = Inr body" and "json_Unmarshal oke_env body = Inr (Some m)" for body m
      using oke_Metadata_after_query [OF q1] that by simp
    have same: "fst (oke_Metadata oke_env p sent) = fst (oke_Metadata oke_env2 p sent)"
      if "url_Parse oke_env2 (okeProviderImpl.endpointV2 p) = None"
        and "server oke_env2 sent (bearer_request (okeProviderImpl.endpointV2 p)) = Inr resp1"
        and "json_Unmarshal oke_env2 = json_Unmarshal oke_env"
      using oke_Metadata_after_query [OF q1] oke_Metadata_after_query [OF q2 [OF that(1,2)]]
        that(3)
      by (simp cong: sum.case_cong)
    show ?thesis using direct same by blast
  qed
  have oci: "(\<forall>body m cert sent2 tenancy.
       Body resp1' = Inr body \<and> json_Unmarshal oci_env body = Inr (Some m)
       \<and> getIdentityCertificate oci_env (identityCertEndpoint q)
            (sent @ [bearer_request (ociProviderImpl.endpointV2 q),
                     bearer_request (ociProviderImpl.endpointV1 q)]) = (Inr cert, sent2)
       \<and> extractTenancyIDFromCertificate cert = Inr tenancy \<longrightarrow>
       oci_Metadata oci_env q sent = (Inr (Some (m\<lparr>TenantId := tenancy\<rparr>), None), sent2))
    \<and> (url_Parse oci_env2 (ociProviderImpl.endpointV2 q) = None
        \<and> server oci_env2 sent (bearer_request (ociProviderImpl.endpointV2 q)) = Inr resp1'
        \<and> json_Unmarshal oci_env2 = json_Unmarshal oci_env
        \<and> fst (getIdentityCertificate oci_env2 (identityCertEndpoint q)
                 (sent @ [bearer_request (ociProviderImpl.endpointV2 q)]))
          = fst (getIdentityCertificate oci_env (identityCertEndpoint q)
                 (sent @ [bearer_request (ociProviderImpl.endpointV2 q),
                          bearer_request (ociProviderImpl.endpointV1 q)])) \<longrightarrow>
       fst (oci_Metadata oci_env q sent) = fst (oci_Metadata oci_env2 q sent))"
    if v2: "url_Parse oci_env (ociProviderImpl.endpointV2 q) = None"
        "server oci_env sent (bearer_request (ociProviderImpl.endpointV2 q)) = Inr resp'"
        "StatusCode resp' \<noteq> 200"
        "url_Parse oci_env (ociProviderImpl.endpointV1 q) = None"
      and v1: "server oci_env (sent @ [bearer_request (ociProviderImpl.endpointV2 q)])
            (bearer_request (ociProviderImpl.endpointV1 q)) = Inr resp1'"
        "StatusCode resp1' = 200"
  proof -
    have q1: "oci_Metadata_query oci_env q sent =
        (Inr resp1', sent @ [bearer_request (ociProviderImpl.endpointV2 q),
                             bearer_request (ociProviderImpl.endpointV1 q)])"
      using oci_query_v1 [OF v2] v1 by simp
    have q2: "oci_Metadata_query oci_env2 q sent =
        (Inr resp1', sent @ [bearer_request (ociProviderImpl.endpointV2 q)])"
      if "url_Parse oci_env2 (ociProviderImpl.endpointV2 q) = None"
        and "server oci_env2 sent (bearer_request (ociProviderImpl.endpointV2 q)) = Inr resp1'"
      using oci_query_v2_ok [OF that v1(2)] .
    have direct: "oci_Metadata oci_env q sent =
        (Inr (Some (m\<lparr>TenantId := tenancy\<rparr>), None), sent2)"
      if "Body resp1' = Inr body" and "json_Unmarshal oci_env body = Inr (Some m)"
        and "getIdentityCertificate oci_env (identityCertEndpoint q)
            (sent @ [bearer_request (ociProviderImpl.endpointV2 q),
                     bearer_request (ociProviderImpl.endpointV1 q)]) = (Inr cert, sent2)"
        and "extractTenancyIDFromCertificate cert = Inr tenancy"
      for body m cert sent2 tenancy
      using oci_Metadata_decoded [OF q1 that(1,2)] that(3,4) by simp
    have same: "fst (oci_Metadata oci_env q sent) = fst (oci_Metadata oci_env2 q sent)"
      if "url_Parse oci_env2 (ociProviderImpl.endpointV2 q) = None"
        and "server oci_env2 sent (bearer_request (ociProviderImpl.endpointV2 q)) = Inr resp1'"
        and "json_Unmarshal oci_env2 = json_Unmarshal oci_env"
        and "fst (getIdentityCertificate oci_env2 (identityCertEndpoint q)
                 (sent @ [bearer_request (ociProviderImpl.endpointV2 q)]))
          = fst (getIdentityCertificate oci_env (identityCertEndpoint q)
                 (sent @ [bearer_request (ociProviderImpl.endpointV2 q),
                          bearer_request (ociProviderImpl.endpointV1 q)]))"
      using oci_Metadata_value [OF q1] oci_Metadata_value [OF q2 [OF that(1,2)]] that(3,4)
      by (simp cong: sum.case_cong)
    show ?thesis using direct same by blast
  qed
  show ?thesis using oke oci by blast
qed

theorem Metadata_fallback_transparent_witness:
  "oke_Metadata (example_environment fallback_replies oke_decode_example) oke_NewProvider []
     = ((Some (OkeMetadataReponse_zero
           \<lparr>OkeMetadataReponse.CanonicalRegionName := ''us-phoenix-1''\<rparr>), None),
        [bearer_request ''http://169.254.169.254/opc/v2/instance/'',
         bearer_request ''http://169.254.169.254/opc/v1/instance/''])
   \<and> fst (oke_Metadata (example_environment fallback_replies oke_decode_example)
          oke_NewProvider [])
     = fst (oke_Metadata (example_environment primary_replies oke_decode_example)
          oke_NewProvider [])
   \<and> oci_Metadata (example_environment fallback_replies oci_decode_example) oci_NewProvider []
     = (Inr (Some (OciMetadataReponse_zero
           \<lparr>CanonicalRegionName := ''us-phoenix-1'', TenantId := ''tenantId''\<rparr>), None),
        [bearer_request ''http://169.254.169.254/opc/v2/instance/'',
         bearer_request ''http://169.254.169.254/opc/v1/instance/'',
         bearer_request ''http://169.254.169.254/opc/v2/identity/cert.pem''])
   \<and> fst (oci_Metadata (example_environment fallback_replies oci_decode_example)
          oci_NewProvider [])
     = fst (oci_Metadata (example_environment primary_replies oci_decode_example)
          oci_NewProvider [])"
proof -
  let ?v2 = "bearer_request ''http://169.254.169.254/opc/v2/instance/''"
  let ?v1 = "bearer_request ''http://169.254.169.254/opc/v1/instance/''"
  let ?crt = "bearer_request ''http://169.254.169.254/opc/v2/identity/cert.pem''"
  let ?oke = "example_environment fallback_replies oke_decode_example"
  let ?oke2 = "example_environment primary_replies oke_decode_example"
  let ?oci = "example_environment fallback_replies oci_decode_example"
  let ?oci2 = "example_environment primary_replies oci_decode_example"
  note T = Metadata_fallback_transparent
    [where oke_env = ?oke and ?oke_env2.0 = ?oke2 and oci_env = ?oci and ?oci_env2.0 = ?oci2
      and p = oke_NewProvider and q = oci_NewProvider and sent = "[]"
      and resp = not_found_response and resp' = not_found_response
      and ?resp1.0 = "ok_response example_body" and resp1' = "ok_response example_body"]
  have oke_fallback:
    "url_Parse ?oke (okeProviderImpl.endpointV2 oke_NewProvider) = None
      \<and> server ?oke [] (bearer_request (okeProviderImpl.endpointV2 oke_NewProvider))
          = Inr not_found_response
      \<and> StatusCode not_found_response \<noteq> 200
      \<and> url_Parse ?oke (okeProviderImpl.endpointV1 oke_NewProvider) = None
      \<and> server ?oke ([] @ [bearer_request (okeProviderImpl.endpointV2 oke_NewProvider)])
            (bearer_request (okeProviderImpl.endpointV1 oke_NewProvider))
          = Inr (ok_response example_body)
      \<and> StatusCode (ok_response example_body) = 200"
    by (simp add: example_simps primary_replies_def fallback_replies_def)
  have oci_fallback:
    "url_Parse ?oci (ociProviderImpl.endpointV2 oci_NewProvider) = None
      \<and> server ?oci [] (bearer_request (ociProviderImpl.endpointV2 oci_NewProvider))
          = Inr not_found_response
      \<and> StatusCode not_found_response \<noteq> 200
      \<and> url_Parse ?oci (ociProviderImpl.endpointV1 oci_NewProvider) = None
      \<and> server ?oci ([] @ [bearer_request (ociProviderImpl.endpointV2 oci_NewProvider)])
            (bearer_request (ociProviderImpl.endpointV1 oci_NewProvider))
          = Inr (ok_response example_body)
      \<and> StatusCode (ok_response example_body) = 200"
    by (simp add: example_simps primary_replies_def fallback_replies_def)
  have oke_decoded:
    "Body (ok_response example_body) = Inr example_body
      \<and> json_Unmarshal ?oke example_body =
          Inr (Some (OkeMetadataReponse_zero
            \<lparr>OkeMetadataReponse.CanonicalRegionName := ''us-phoenix-1''\<rparr>))"
    by (simp add: example_simps primary_replies_def fallback_replies_def)
  have oci_decoded:
    "Body (ok_response example_body) = Inr example_body
      \<and> json_Unmarshal ?oci example_body =
          Inr (Some (OciMetadataReponse_zero\<lparr>CanonicalRegionName := ''us-phoenix-1''\<rparr>))
      \<and> getIdentityCertificate ?oci (identityCertEndpoint oci_NewProvider)
            ([] @ [bearer_request (ociProviderImpl.endpointV2 oci_NewProvider),
                   bearer_request (ociProviderImpl.endpointV1 oci_NewProvider)])
          = (Inr example_certificate, [?v2, ?v1, ?crt])
      \<and> extractTenancyIDFromCertificate example_certificate = Inr ''tenantId''"
    by (simp add: example_simps primary_replies_def fallback_replies_def)
  have oke_primary:
    "url_Parse ?oke2 (okeProviderImpl.endpointV2 oke_NewProvider) = None
      \<and> server ?oke2 [] (bearer_request (okeProviderImpl.endpointV2 oke_NewProvider))
          = Inr (ok_response example_body)
      \<and> json_Unmarshal ?oke2 = json_Unmarshal ?oke"
    by (simp add: example_simps primary_replies_def fallback_replies_def)
  have oci_primary:
    "url_Parse ?oci2 (ociProviderImpl.endpointV2 oci_NewProvider) = None
      \<and> server ?oci2 [] (bearer_request (ociProviderImpl.endpointV2 oci_NewProvider))
          = Inr (ok_response example_body)
      \<and> json_Unmarshal ?oci2 = json_Unmarshal ?oci
      \<and> fst (getIdentityCertificate ?oci2 (identityCertEndpoint oci_NewProvider)
               ([] @ [bearer_request (ociProviderImpl.endpointV2 oci_NewProvider)]))
        = fst (getIdentityCertificate ?oci (identityCertEndpoint oci_NewProvider)
               ([] @ [bearer_request (ociProviderImpl.endpointV2 oci_NewProvider),
                      bearer_request (ociProviderImpl.endpointV1 oci_NewProvider)]))"
    by (simp add: example_simps primary_replies_def fallback_replies_def)
  have "oke_Metadata ?oke oke_NewProvider [] =
      ((Some (OkeMetadataReponse_zero
           \<lparr>OkeMetadataReponse.CanonicalRegionName := ''us-phoenix-1''\<rparr>), None),
       [] @ [bearer_request (okeProviderImpl.endpointV2 oke_NewProvider),
             bearer_request (okeProviderImpl.endpointV1 oke_NewProvider)])"
    using T oke_fallback oke_decoded by blast
  moreover have "fst (oke_Metadata ?oke oke_NewProvider [])
      = fst (oke_Metadata ?oke2 oke_NewProvider [])"
    using T oke_fallback oke_primary by blast
  moreover have "oci_Metadata ?oci oci_NewProvider [] =
      (Inr (Some (OciMetadataReponse_zero\<lparr>CanonicalRegionName := ''us-phoenix-1''\<rparr>
               \<lparr>TenantId := ''tenantId''\<rparr>), None), [?v2, ?v1, ?crt])"
    using T oci_fallback oci_decoded by blast
  moreover have "fst (oci_Metadata ?oci oci_NewProvider [])
      = fst (oci_Metadata ?oci2 oci_NewProvider [])"
    using T oci_fallback oci_primary by blast
  ultimately show ?thesis
    by (simp add: oke_NewProvider_def metadataEndpointV2_def metadataEndpointV1_def)
qed

text \<open>
  Claim C8. For the bare-instance provider, at the point of the run where the
  certificate is requested: an answer with a status other than 200, an unreadable body,
  a body that is not PEM data and a block that is not an X.509 certificate each make
  \<open>getIdentityCertificate\<close> fail; whenever \<open>getIdentityCertificate\<close> fails there (on
  these or on a transport or request error), \<open>Metadata\<close> returns a nil response and a
  non-nil error; and every response \<open>Metadata\<close> returns with a nil error carries the
  tenancy id extracted from a certificate that was resolved successfully.
\<close>

theorem oci_Metadata_certificate_failure:
  fixes env :: "OciMetadataReponse environment"
  shows
  "(url_Parse env (identityCertEndpoint p) = None
      \<and> server env (snd (oci_Metadata_query env p sent))
            (bearer_request (identityCertEndpoint p)) = Inr resp
      \<and> (StatusCode resp \<noteq> 200
          \<or> (\<exists>e. Body resp = Inl e)
          \<or> (\<exists>body. Body resp = Inr body
                \<and> (pem_Decode env body = None
                    \<or> (\<exists>der e. pem_Decode env body = Some der
                          \<and> x509_ParseCertificate env der = Inl e)))) \<longrightarrow>
    (\<exists>e. fst (getIdentityCertificate env (identityCertEndpoint p)
                (snd (oci_Metadata_query env p sent))) = Inl e))
   \<and> ((\<exists>e. fst (getIdentityCertificate env (identityCertEndpoint p)
                (snd (oci_Metadata_query env p sent))) = Inl e) \<longrightarrow>
    (\<exists>err. fst (oci_Metadata env p sent) = Inr (None, Some err)))
   \<and> (\<forall>m. fst (oci_Metadata env p sent) = Inr (Some m, None) \<longrightarrow>
    (\<exists>cert. fst (getIdentityCertificate env (identityCertEndpoint p)
                (snd (oci_Metadata_query env p sent))) = Inr cert
       \<and> extractTenancyIDFromCertificate cert = Inr (TenantId m)))"
proof (intro conjI impI allI)
  assume "url_Parse env (identityCertEndpoint p) = None
      \<and> server env (snd (oci_Metadata_query env p sent))
            (bearer_request (identityCertEndpoint p)) = Inr resp
      \<and> (StatusCode resp \<noteq> 200
          \<or> (\<exists>e. Body resp = Inl e)
          \<or> (\<exists>body. Body resp = Inr body
                \<and> (pem_Decode env body = None
                    \<or> (\<exists>der e. pem_Decode env body = Some der
                          \<and> x509_ParseCertificate env der = Inl e))))"
  then show "\<exists>e. fst (getIdentityCertificate env (identityCertEndpoint p)
                (snd (oci_Metadata_query env p sent))) = Inl e"
    by (auto simp: getIdentityCertificate_def NewRequest_ok Header_Add_bearer client_Do_def)
next
  assume "\<exists>e. fst (getIdentityCertificate env (identityCertEndpoint p)
                (snd (oci_Metadata_query env p sent))) = Inl e"
  then show "\<exists>err. fst (oci_Metadata env p sent) = Inr (None, Some err)"
    by (cases "oci_Metadata_query env p sent")
       (auto simp: oci_Metadata_def split: sum.splits prod.splits)
next
  fix m
  assume "fst (oci_Metadata env p sent) = Inr (Some m, None)"
  then show "\<exists>cert. fst (getIdentityCertificate env (identityCertEndpoint p)
                (snd (oci_Metadata_query env p sent))) = Inr cert
       \<and> extractTenancyIDFromCertificate cert = Inr (TenantId m)"
    by (cases "oci_Metadata_query env p sent")
       (auto simp: oci_Metadata_def split: sum.splits prod.splits option.splits)
qed

theorem oci_Metadata_certificate_failure_witness:
  "(\<exists>e. fst (getIdentityCertificate
        (example_environment cert_missing_replies oci_decode_example)
        ''http://169.254.169.254/opc/v2/identity/cert.pem''
        [bearer_request ''http://169.254.169.254/opc/v2/instance/'']) = Inl e)
   \<and> (\<exists>err. fst (oci_Metadata (example_environment cert_missing_replies oci_decode_example)
        oci_NewProvider []) = Inr (None, Some err))"
proof -
  let ?env = "example_environment cert_missing_replies oci_decode_example"
  have q: "snd (oci_Metadata_query ?env oci_NewProvider []) =
      [bearer_request ''http://169.254.169.254/opc/v2/instance/'']"
    by (simp add: oci_Metadata_query_def example_simps cert_missing_replies_def)
  have c: "identityCertEndpoint oci_NewProvider =
      ''http://169.254.169.254/opc/v2/identity/cert.pem''"
    by (simp add: oci_NewProvider_def)
  have h: "url_Parse ?env (identityCertEndpoint oci_NewProvider) = None
      \<and> server ?env (snd (oci_Metadata_query ?env oci_NewProvider []))
            (bearer_request (identityCertEndpoint oci_NewProvider)) = Inr not_found_response
      \<and> (StatusCode not_found_response \<noteq> 200
          \<or> (\<exists>e. Body not_found_response = Inl e)
          \<or> (\<exists>body. Body not_found_response = Inr body
                \<and> (pem_Decode ?env body = None
                    \<or> (\<exists>der e. pem_Decode ?env body = Some der
                          \<and> x509_ParseCertificate ?env der = Inl e))))"
    by (simp add: q c) (simp add: example_simps cert_missing_replies_def)
  from oci_Metadata_certificate_failure [of ?env oci_NewProvider "[]" not_found_response] h
  show ?thesis unfolding q c by blast
qed

subsection \<open>Nil responses\<close>

lemma oke_Metadata_error_nil:
  "oke_Metadata env p sent = ((r, Some e), sent1) \<Longrightarrow> r = None"
  by (auto simp: oke_Metadata_def split: sum.splits prod.splits)

lemma oke_Metadata_nil_error:
  assumes "\<And>body. json_Unmarshal env body \<noteq> Inr None"
    and "oke_Metadata env p sent = ((None, e), sent1)"
  shows "e \<noteq> None"
  using assms by (auto simp: oke_Metadata_def split: sum.splits prod.splits)

lemma oci_Metadata_nil_iff_error:
  "oci_Metadata env p sent = (Inr (r, e), sent1) \<Longrightarrow> (r = None) = (e \<noteq> None)"
  by (auto simp: oci_Metadata_def split: sum.splits prod.splits option.splits)

text \<open>
  Claim C6. The claim excludes a nil response with a nil error. When the version-2
  endpoint answers 200 with the body \<open>null\<close>, \<open>json.Unmarshal\<close> sets the pointer to
  nil and reports no error: the cluster-node \<open>Metadata\<close> returns (nil, nil), and the
  bare-instance \<open>Metadata\<close>, once the certificate is resolved, panics on the store
  through the nil pointer and returns nothing at all.
\<close>

theorem Metadata_null_body:
  "oke_Metadata (example_environment null_replies oke_decode_example) oke_NewProvider []
     = ((None, None), [bearer_request ''http://169.254.169.254/opc/v2/instance/''])
   \<and> oci_Metadata (example_environment null_replies oci_decode_example) oci_NewProvider []
     = (Inl NilPointerDereference,
        [bearer_request ''http://169.254.169.254/opc/v2/instance/'',
         bearer_request ''http://169.254.169.254/opc/v2/identity/cert.pem''])"
  by (simp add: oke_Metadata_def oke_Metadata_query_def oci_Metadata_def oci_Metadata_query_def
      example_simps null_replies_def)

end
